theory Spec2Isabelle
  imports Main
begin

section \<open>Coordinate transform\<close>

text \<open>
  \<^verbatim>\<open>def flip_y(zoom, y): return (2**zoom-1) - y\<close>
  A zoom level is a non-negative integer, so it is a \<open>nat\<close> here (for a negative
  exponent Python's \<open>2**zoom\<close> is a float, which no caller produces); the row \<open>y\<close>
  is an unbounded Python integer.
\<close>

definition flip_y :: "nat \<Rightarrow> int \<Rightarrow> int" where
  "flip_y zoom y = (2 ^ zoom - 1) - y"

section \<open>Properties of the coordinate transform\<close>

text \<open>
  Claim C8: \<open>flip_y zoom y\<close> is \<open>(2^zoom - 1) - y\<close>, and flipping twice gives the row
  back. It holds for every zoom level and every integer row, in particular for the rows
  \<open>0 \<le> y < 2^zoom\<close> of the claim.
\<close>

theorem flip_y_involution:
  "flip_y zoom y = (2 ^ zoom - 1) - y \<and> flip_y zoom (flip_y zoom y) = y"
  by (simp add: flip_y_def)

end
